theory Spec2Isabelle
  imports Complex_Main
begin

section \<open>Numbers\<close>

text \<open>
  A JavaScript number is modelled as a real or \<open>NaN\<close>. Rounding (also the rounding of a
  \<open>Float32Array\<close> store) and the two infinities are outside the model: arithmetic on
  \<open>Num\<close> is exact. \<open>NaN\<close> is kept because the code tests numbers for truthiness
  (\<open>!x\<close> holds of \<open>0\<close> and of \<open>NaN\<close>) and because reading past the end of an array
  yields \<open>undefined\<close>, which arithmetic turns into \<open>NaN\<close>.
\<close>

datatype jsnum = Num real | NaN

fun neg :: "jsnum \<Rightarrow> jsnum" where
  "neg (Num a) = Num (- a)"
| "neg NaN = NaN"

fun add :: "jsnum \<Rightarrow> jsnum \<Rightarrow> jsnum" where
  "add (Num a) (Num b) = Num (a + b)"
| "add _ _ = NaN"

fun sub :: "jsnum \<Rightarrow> jsnum \<Rightarrow> jsnum" where
  "sub (Num a) (Num b) = Num (a - b)"
| "sub _ _ = NaN"

fun mul :: "jsnum \<Rightarrow> jsnum \<Rightarrow> jsnum" where
  "mul (Num a) (Num b) = Num (a * b)"
| "mul _ _ = NaN"

text \<open>
  \<open>Math.abs\<close>.
\<close>

fun Math_abs :: "jsnum \<Rightarrow> jsnum" where
  "Math_abs (Num a) = Num \<bar>a\<bar>"
| "Math_abs NaN = NaN"

text \<open>
  Division. JavaScript gives an infinity (or \<open>NaN\<close> for \<open>0 / 0\<close>) for a zero divisor;
  the model has no infinities and gives \<open>NaN\<close>. The program divides once, by a number
  it has just tested to be truthy, so this branch is never taken by it.
\<close>

fun divide_js :: "jsnum \<Rightarrow> jsnum \<Rightarrow> jsnum" where
  "divide_js (Num a) (Num b) = (if b = 0 then NaN else Num (a / b))"
| "divide_js _ _ = NaN"

text \<open>
  Truthiness of \<open>number | undefined\<close> (\<open>None\<close> is \<open>undefined\<close>): \<open>!v\<close> is
  \<open>\<not> truthy v\<close>.
\<close>

fun truthy :: "jsnum option \<Rightarrow> bool" where
  "truthy None = False"
| "truthy (Some NaN) = False"
| "truthy (Some (Num a)) = (a \<noteq> 0)"

section \<open>Quaternions of three.js\<close>

text \<open>
  \<open>THREE.Quaternion\<close> is three.js, not this repository; its methods are modelled as the
  library defines them. \<open>invert\<close> is the conjugate (the library assumes unit length).
\<close>

record quaternion =
  qx :: jsnum
  qy :: jsnum
  qz :: jsnum
  qw :: jsnum

definition new_Quaternion :: quaternion where
  "new_Quaternion = \<lparr>qx = Num 0, qy = Num 0, qz = Num 0, qw = Num 1\<rparr>"

definition multiplyQuaternions :: "quaternion \<Rightarrow> quaternion \<Rightarrow> quaternion" where
  "multiplyQuaternions a b =
     \<lparr>qx = sub (add (add (mul (qx a) (qw b)) (mul (qw a) (qx b))) (mul (qy a) (qz b))) (mul (qz a) (qy b)),
      qy = sub (add (add (mul (qy a) (qw b)) (mul (qw a) (qy b))) (mul (qz a) (qx b))) (mul (qx a) (qz b)),
      qz = sub (add (add (mul (qz a) (qw b)) (mul (qw a) (qz b))) (mul (qx a) (qy b))) (mul (qy a) (qx b)),
      qw = sub (sub (sub (mul (qw a) (qw b)) (mul (qx a) (qx b))) (mul (qy a) (qy b))) (mul (qz a) (qz b))\<rparr>"

text \<open>
  \<open>this.multiply(q)\<close> is \<open>this \<cdot> q\<close>; \<open>this.premultiply(q)\<close> is \<open>q \<cdot> this\<close>.
\<close>

definition multiply :: "quaternion \<Rightarrow> quaternion \<Rightarrow> quaternion" where
  "multiply this q = multiplyQuaternions this q"

definition premultiply :: "quaternion \<Rightarrow> quaternion \<Rightarrow> quaternion" where
  "premultiply this q = multiplyQuaternions q this"

definition invert :: "quaternion \<Rightarrow> quaternion" where
  "invert q = \<lparr>qx = neg (qx q), qy = neg (qy q), qz = neg (qz q), qw = qw q\<rparr>"

text \<open>
  Arrays of numbers. \<open>element a i\<close> is \<open>a[i]\<close> read as a number: past the end it is
  \<open>undefined\<close>, which every arithmetic operation turns into \<open>NaN\<close>. A store past the end
  of a typed array is ignored, which is what \<open>a[i := v]\<close> does.
\<close>

definition element :: "jsnum list \<Rightarrow> nat \<Rightarrow> jsnum" where
  "element a i = (if i < length a then a ! i else NaN)"

definition slice :: "nat \<Rightarrow> nat \<Rightarrow> 'a list \<Rightarrow> 'a list" where
  "slice i j a = take (j - i) (drop i a)"

definition fromArray :: "jsnum list \<Rightarrow> quaternion" where
  "fromArray a = \<lparr>qx = element a 0, qy = element a 1, qz = element a 2, qw = element a 3\<rparr>"

definition toArray :: "quaternion \<Rightarrow> jsnum list \<Rightarrow> jsnum list" where
  "toArray q a = a[0 := qx q, 1 := qy q, 2 := qz q, 3 := qw q]"

text \<open>
  \<open>a.map((v, i) => f v i)\<close>.
\<close>

definition map_index :: "('a \<Rightarrow> nat \<Rightarrow> 'b) \<Rightarrow> 'a list \<Rightarrow> 'b list" where
  "map_index f a = map (\<lambda>(i, v). f v i) (enumerate 0 a)"

text \<open>
  \<open>s.split('.')\<close>.
\<close>

fun split_dot :: "string \<Rightarrow> string list" where
  "split_dot [] = [[]]"
| "split_dot (c # cs) =
     (if c = CHR ''.'' then [] # split_dot cs
      else (case split_dot cs of [] \<Rightarrow> [[c]] | p # ps \<Rightarrow> (c # p) # ps))"

section \<open>Data\<close>

text \<open>
  \<open>THREE.KeyframeTrack\<close> and its subclasses: the class of a track decides the branch
  taken (\<open>instanceof\<close>); every class other than the two tested ones is
  \<open>OtherKeyframeTrack\<close>. \<open>values\<close> is the flat array of components (a typed
  array). A track may have been left without keyframe times after it was built. The tracks
  of a clip are distinct objects, and the duration of a clip is not negative, as the
  constructor of \<open>THREE.AnimationClip\<close> leaves it, so that the constructor of the
  returned clip keeps the duration it is given.
\<close>

datatype trackClass = QuaternionKeyframeTrack | VectorKeyframeTrack | OtherKeyframeTrack

record keyframeTrack =
  track_class :: trackClass
  track_name :: string
  track_times :: "jsnum list"
  track_values :: "jsnum list"

record animationClip =
  clip_name :: string
  clip_duration :: jsnum
  clip_tracks :: "keyframeTrack list"

text \<open>
  A node of the source scene graph, with what three.js derives for it: \<open>position_y\<close> is
  \<open>node.position.y\<close> (local), \<open>worldQuaternion\<close> is what \<open>getWorldQuaternion\<close> yields,
  \<open>parent_worldQuaternion\<close> is the same for \<open>node.parent\<close> (\<open>None\<close> when the node has
  no parent), \<open>worldPosition_y\<close> is the height \<open>getWorldPosition\<close> yields. The program
  never reads \<open>worldPosition_y\<close> of a source node; the library computes it through the
  transforms of the node's ancestors, so it need not be \<open>position_y\<close>.
\<close>

record object3D =
  position_y :: jsnum
  worldPosition_y :: jsnum
  worldQuaternion :: quaternion
  parent_worldQuaternion :: "quaternion option"

text \<open>
  The loaded FBX asset (\<open>THREE.Group\<close>): its clips, the lookup \<open>getObjectByName\<close> as
  a map from names to nodes, and the world height of the group itself (not read by the
  program).
\<close>

record group =
  animations :: "animationClip list"
  getObjectByName :: "string \<Rightarrow> object3D option"
  group_worldPosition_y :: jsnum

record humanBoneNode =
  node_name :: string
  node_worldPosition_y :: jsnum

text \<open>
  The target: \<open>humanoid\<close> is \<open>None\<close> when \<open>vrm.humanoid\<close> is undefined, else the
  table of normalized bone nodes by bone name; \<open>scene_worldPosition_y\<close> is
  \<open>vrm.scene.getWorldPosition(_).y\<close>; \<open>meta_metaVersion\<close> is \<open>vrm.meta?.metaVersion\<close>.
\<close>

record vrm =
  humanoid :: "(string \<Rightarrow> humanBoneNode option) option"
  scene_worldPosition_y :: jsnum
  meta_metaVersion :: "string option"

text \<open>
  The options. An own key of \<open>customBoneMap\<close> holds a bone name or, the type being a
  \<open>Partial\<close>, \<open>undefined\<close>: \<open>None\<close> is no such key, \<open>Some None\<close> a key that
  holds \<open>undefined\<close>.
\<close>

record retargetingOptions =
  customBoneMap :: "(string \<Rightarrow> string option option) option"
  logWarnings :: "bool option"
  animationClipName :: "string option"

text \<open>
  What a lookup in the merged bone map yields when it is not \<open>undefined\<close>: a bone name
  held by an own key, or the value the plain object inherits from \<open>Object.prototype\<close>
  under that name (a function, or the prototype itself), which is truthy and names no bone.
\<close>

datatype boneMapValue = BoneName string | Inherited string

text \<open>
  What is written to the console, in order: the three \<open>console.warn\<close> calls and the
  \<open>console.error\<close> of the \<open>catch\<close> branch.
\<close>

datatype console_message =
  ClipNotFound string
  | HipsScalingFailed
  | VrmBoneNotFound boneMapValue string
  | RetargetFailed

definition mixamoVRMRigMap :: "(string \<times> string) list" where
  "mixamoVRMRigMap =
     [(''mixamorigHips'', ''hips''),
      (''mixamorigSpine'', ''spine''),
      (''mixamorigSpine1'', ''chest''),
      (''mixamorigSpine2'', ''upperChest''),
      (''mixamorigNeck'', ''neck''),
      (''mixamorigHead'', ''head''),
      (''mixamorigLeftShoulder'', ''leftShoulder''),
      (''mixamorigLeftArm'', ''leftUpperArm''),
      (''mixamorigLeftForeArm'', ''leftLowerArm''),
      (''mixamorigLeftHand'', ''leftHand''),
      (''mixamorigLeftHandThumb1'', ''leftThumbMetacarpal''),
      (''mixamorigLeftHandThumb2'', ''leftThumbProximal''),
      (''mixamorigLeftHandThumb3'', ''leftThumbDistal''),
      (''mixamorigLeftHandIndex1'', ''leftIndexProximal''),
      (''mixamorigLeftHandIndex2'', ''leftIndexIntermediate''),
      (''mixamorigLeftHandIndex3'', ''leftIndexDistal''),
      (''mixamorigLeftHandMiddle1'', ''leftMiddleProximal''),
      (''mixamorigLeftHandMiddle2'', ''leftMiddleIntermediate''),
      (''mixamorigLeftHandMiddle3'', ''leftMiddleDistal''),
      (''mixamorigLeftHandRing1'', ''leftRingProximal''),
      (''mixamorigLeftHandRing2'', ''leftRingIntermediate''),
      (''mixamorigLeftHandRing3'', ''leftRingDistal''),
      (''mixamorigLeftHandPinky1'', ''leftLittleProximal''),
      (''mixamorigLeftHandPinky2'', ''leftLittleIntermediate''),
      (''mixamorigLeftHandPinky3'', ''leftLittleDistal''),
      (''mixamorigRightShoulder'', ''rightShoulder''),
      (''mixamorigRightArm'', ''rightUpperArm''),
      (''mixamorigRightForeArm'', ''rightLowerArm''),
      (''mixamorigRightHand'', ''rightHand''),
      (''mixamorigRightHandPinky1'', ''rightLittleProximal''),
      (''mixamorigRightHandPinky2'', ''rightLittleIntermediate''),
      (''mixamorigRightHandPinky3'', ''rightLittleDistal''),
      (''mixamorigRightHandRing1'', ''rightRingProximal''),
      (''mixamorigRightHandRing2'', ''rightRingIntermediate''),
      (''mixamorigRightHandRing3'', ''rightRingDistal''),
      (''mixamorigRightHandMiddle1'', ''rightMiddleProximal''),
      (''mixamorigRightHandMiddle2'', ''rightMiddleIntermediate''),
      (''mixamorigRightHandMiddle3'', ''rightMiddleDistal''),
      (''mixamorigRightHandIndex1'', ''rightIndexProximal''),
      (''mixamorigRightHandIndex2'', ''rightIndexIntermediate''),
      (''mixamorigRightHandIndex3'', ''rightIndexDistal''),
      (''mixamorigRightHandThumb1'', ''rightThumbMetacarpal''),
      (''mixamorigRightHandThumb2'', ''rightThumbProximal''),
      (''mixamorigRightHandThumb3'', ''rightThumbDistal''),
      (''mixamorigLeftUpLeg'', ''leftUpperLeg''),
      (''mixamorigLeftLeg'', ''leftLowerLeg''),
      (''mixamorigLeftFoot'', ''leftFoot''),
      (''mixamorigLeftToeBase'', ''leftToes''),
      (''mixamorigRightUpLeg'', ''rightUpperLeg''),
      (''mixamorigRightLeg'', ''rightLowerLeg''),
      (''mixamorigRightFoot'', ''rightFoot''),
      (''mixamorigRightToeBase'', ''rightToes'')]"

text \<open>
  The property names of \<open>Object.prototype\<close>, which every plain object answers to.
\<close>

definition objectPrototypeKeys :: "string list" where
  "objectPrototypeKeys =
     [''constructor'', ''__defineGetter__'', ''__defineSetter__'', ''hasOwnProperty'',
      ''__lookupGetter__'', ''__lookupSetter__'', ''isPrototypeOf'', ''propertyIsEnumerable'',
      ''toString'', ''valueOf'', ''__proto__'', ''toLocaleString'']"

text \<open>
  \<open>boneMap[name]\<close> on \<open>{ ...mixamoVRMRigMap, ...customBoneMap }\<close>: the later spread
  wins among the own keys, and a name that is no own key is looked up in the prototype.
\<close>

definition boneMap ::
  "(string \<Rightarrow> string option option) \<Rightarrow> string \<Rightarrow> boneMapValue option" where
  "boneMap custom n =
     (case custom n of
        Some held \<Rightarrow> map_option BoneName held
      | None \<Rightarrow>
          (case map_of mixamoVRMRigMap n of
             Some b \<Rightarrow> Some (BoneName b)
           | None \<Rightarrow> if n \<in> set objectPrototypeKeys then Some (Inherited n) else None))"

text \<open>
  Truthiness of what the lookup yields.
\<close>

fun truthyValue :: "boneMapValue option \<Rightarrow> bool" where
  "truthyValue None = False"
| "truthyValue (Some (BoneName b)) = (b \<noteq> [])"
| "truthyValue (Some (Inherited n)) = True"

text \<open>
  \<open>THREE.AnimationClip.findByName\<close>: the first clip of that name.
\<close>

definition findByName :: "animationClip list \<Rightarrow> string \<Rightarrow> animationClip option" where
  "findByName clips n = find (\<lambda>c. clip_name c = n) clips"

text \<open>
  \<open>vrm.humanoid?.getNormalizedBoneNode(b)\<close>, where \<open>b\<close> is what the lookup in the
  bone map yields: only a bone name can name a bone.
\<close>

definition getNormalizedBoneNode :: "vrm \<Rightarrow> boneMapValue option \<Rightarrow> humanBoneNode option" where
  "getNormalizedBoneNode v b =
     (case humanoid v of None \<Rightarrow> None
      | Some bones \<Rightarrow> (case b of Some (BoneName n) \<Rightarrow> bones n | _ \<Rightarrow> None))"

text \<open>
  The constructor of \<open>THREE.KeyframeTrack\<close> (three.js), called for every track that is
  pushed: it throws when \<open>times\<close> has no element. \<open>None\<close> is the throw.
\<close>

definition new_KeyframeTrack ::
  "trackClass \<Rightarrow> string \<Rightarrow> jsnum list \<Rightarrow> jsnum list \<Rightarrow> keyframeTrack option" where
  "new_KeyframeTrack c n tms vals =
     (if tms = [] then None
      else Some \<lparr>track_class = c, track_name = n, track_times = tms, track_values = vals\<rparr>)"

section \<open>The hips height scale\<close>

definition motionHipsHeight :: "group \<Rightarrow> jsnum option" where
  "motionHipsHeight fbxAsset = map_option position_y (getObjectByName fbxAsset ''mixamorigHips'')"

definition vrmHipsY :: "vrm \<Rightarrow> jsnum option" where
  "vrmHipsY v =
     map_option node_worldPosition_y (getNormalizedBoneNode v (Some (BoneName ''hips'')))"

definition vrmRootY :: "vrm \<Rightarrow> jsnum" where
  "vrmRootY v = scene_worldPosition_y v"

definition vrmHipsHeight :: "jsnum \<Rightarrow> jsnum \<Rightarrow> jsnum" where
  "vrmHipsHeight hipsY rootY = Math_abs (sub hipsY rootY)"

text \<open>
  Lines 112 to 127: \<open>None\<close> is the early \<open>return null\<close>, otherwise the value of
  \<open>hipsPositionScale\<close>. Past the test both numbers are defined, so the last case
  is never taken.
\<close>

definition hipsPositionScale :: "group \<Rightarrow> vrm \<Rightarrow> jsnum option" where
  "hipsPositionScale fbxAsset v =
     (if \<not> truthy (vrmHipsY v) \<or> \<not> truthy (motionHipsHeight fbxAsset) then None
      else (case (vrmHipsY v, motionHipsHeight fbxAsset) of
              (Some hipsY, Some motionHeight) \<Rightarrow>
                Some (divide_js (vrmHipsHeight hipsY (vrmRootY v)) motionHeight)
            | _ \<Rightarrow> None))"

section \<open>The loop over the tracks\<close>

text \<open>
  The quaternion loop, \<open>for (let i = 0; i < track.values.length; i += 4)\<close>, on the
  array \<open>track.values\<close>, which it overwrites.
\<close>

definition writeBack :: "nat \<Rightarrow> jsnum list \<Rightarrow> jsnum list \<Rightarrow> jsnum list" where
  "writeBack i flatQuaternion vals =
     fold (\<lambda>index vs. vs[index + i := flatQuaternion ! index]) [0..<length flatQuaternion] vals"

lemma length_writeBack [simp]: "length (writeBack i flat vals) = length vals"
proof -
  have "length (fold (\<lambda>index vs. vs[index + i := flat ! index]) ks vals) = length vals" for ks
    by (induction ks arbitrary: vals) simp_all
  then show ?thesis by (simp add: writeBack_def)
qed

function quaternionLoop :: "quaternion \<Rightarrow> quaternion \<Rightarrow> nat \<Rightarrow> jsnum list \<Rightarrow> jsnum list" where
  "quaternionLoop parentRest restInverse i vals =
     (if i < length vals then
        (let flatQuaternion = slice i (i + 4) vals;
             quatA = fromArray flatQuaternion;
             quatA' = multiply (premultiply quatA parentRest) restInverse;
             flatQuaternion' = toArray quatA' flatQuaternion
         in quaternionLoop parentRest restInverse (i + 4) (writeBack i flatQuaternion' vals))
      else vals)"
  by pat_completeness auto
termination
  by (relation "measure (\<lambda>(p, r, i, vals). length vals - i)") auto

declare quaternionLoop.simps [simp del]

text \<open>
  The state the callback of \<open>clip.tracks.forEach\<close> shares between tracks: the output array
  \<open>tracks\<close>, the two scratch quaternions declared before the loop, and the console;
  \<open>thrown\<close> holds once a constructor has thrown, which ends the loop and takes the call
  to its \<open>catch\<close> branch.
\<close>

record loopState =
  tracks :: "keyframeTrack list"
  restRotationInverse :: quaternion
  parentRestWorldRotation :: quaternion
  console :: "console_message list"
  thrown :: bool

text \<open>
  \<open>tracks.push(new ...KeyframeTrack(name, times, values))\<close>: nothing is pushed when
  the constructor throws.
\<close>

definition push_new_KeyframeTrack ::
  "trackClass \<Rightarrow> string \<Rightarrow> jsnum list \<Rightarrow> jsnum list \<Rightarrow> loopState \<Rightarrow> loopState" where
  "push_new_KeyframeTrack c n tms vals st =
     (case new_KeyframeTrack c n tms vals of
        None \<Rightarrow> st\<lparr>thrown := True\<rparr>
      | Some created \<Rightarrow> st\<lparr>tracks := tracks st @ [created]\<rparr>)"

text \<open>
  \<open>mixamoRigNode?.getWorldQuaternion(restRotationInverse).invert()\<close> and
  \<open>mixamoRigNode?.parent?.getWorldQuaternion(parentRestWorldRotation)\<close>: where the
  optional chain stops, the scratch quaternion keeps the value it had.
\<close>

definition storeRestRotations :: "object3D option \<Rightarrow> loopState \<Rightarrow> loopState" where
  "storeRestRotations mixamoRigNode st =
     (case mixamoRigNode of
        None \<Rightarrow> st
      | Some node \<Rightarrow>
          (let st' = st\<lparr>restRotationInverse := invert (worldQuaternion node)\<rparr>
           in (case parent_worldQuaternion node of
                 None \<Rightarrow> st'
               | Some q \<Rightarrow> st'\<lparr>parentRestWorldRotation := q\<rparr>)))"

text \<open>
  The two corrections for \<open>metaVersion === '0'\<close>, as the callbacks of \<open>values.map\<close>.
\<close>

definition quaternionValue :: "vrm \<Rightarrow> jsnum \<Rightarrow> nat \<Rightarrow> jsnum" where
  "quaternionValue v x i = (if meta_metaVersion v = Some ''0'' \<and> i mod 2 = 0 then neg x else x)"

definition vectorValue :: "vrm \<Rightarrow> jsnum \<Rightarrow> jsnum \<Rightarrow> nat \<Rightarrow> jsnum" where
  "vectorValue v scale x i =
     mul (if meta_metaVersion v = Some ''0'' \<and> i mod 3 \<noteq> 1 then neg x else x) scale"

text \<open>
  \<open>trackSplitted[0]\<close> and \<open>trackSplitted[1]\<close> of \<open>track.name.split('.')\<close>. The
  second is \<open>undefined\<close> for a name without a dot, and the template literal prints it
  as such.
\<close>

definition mixamoRigName :: "keyframeTrack \<Rightarrow> string" where
  "mixamoRigName track = (case split_dot (track_name track) of [] \<Rightarrow> [] | n # _ \<Rightarrow> n)"

definition propertyName :: "keyframeTrack \<Rightarrow> string" where
  "propertyName track = (case split_dot (track_name track) of _ # p # _ \<Rightarrow> p | _ \<Rightarrow> ''undefined'')"

text \<open>
  The callback of \<open>forEach\<close> for one track: the track as it is left, and the new state.
\<close>

definition forEachBody ::
  "group \<Rightarrow> vrm \<Rightarrow> (string \<Rightarrow> boneMapValue option) \<Rightarrow> bool \<Rightarrow> jsnum \<Rightarrow>
   keyframeTrack \<Rightarrow> loopState \<Rightarrow> keyframeTrack \<times> loopState" where
  "forEachBody fbxAsset v bmap logW scale track st =
     (let vrmBoneName = bmap (mixamoRigName track);
          vrmNodeName = map_option node_name (getNormalizedBoneNode v vrmBoneName);
          mixamoRigNode = getObjectByName fbxAsset (mixamoRigName track)
      in (case vrmNodeName of
            Some nodeName \<Rightarrow>
              (let st1 = storeRestRotations mixamoRigNode st
               in (case track_class track of
                     QuaternionKeyframeTrack \<Rightarrow>
                       (let vals = quaternionLoop (parentRestWorldRotation st1)
                                     (restRotationInverse st1) 0 (track_values track);
                            track' = track\<lparr>track_values := vals\<rparr>
                        in (track',
                            push_new_KeyframeTrack QuaternionKeyframeTrack
                              (nodeName @ ''.'' @ propertyName track)
                              (track_times track')
                              (map_index (quaternionValue v) (track_values track')) st1))
                   | VectorKeyframeTrack \<Rightarrow>
                       (let value = map_index (vectorValue v scale) (track_values track)
                        in (track,
                            push_new_KeyframeTrack VectorKeyframeTrack
                              (nodeName @ ''.'' @ propertyName track)
                              (track_times track) value st1))
                   | OtherKeyframeTrack \<Rightarrow> (track, st1)))
          | None \<Rightarrow>
              (case vrmBoneName of
                 Some held \<Rightarrow>
                   (if logW \<and> truthyValue vrmBoneName
                    then (track, st\<lparr>console := console st @
                            [VrmBoneNotFound held (mixamoRigName track)]\<rparr>)
                    else (track, st))
               | None \<Rightarrow> (track, st))))"

text \<open>
  \<open>clip.tracks.forEach\<close>: the tracks as they are left, and the last state. A throw in
  the callback ends the loop; the tracks not yet visited stay as they are.
\<close>

fun forEach ::
  "(keyframeTrack \<Rightarrow> loopState \<Rightarrow> keyframeTrack \<times> loopState) \<Rightarrow>
   keyframeTrack list \<Rightarrow> loopState \<Rightarrow> keyframeTrack list \<times> loopState" where
  "forEach f [] st = ([], st)"
| "forEach f (t # ts) st =
     (case f t st of (t', st') \<Rightarrow>
        if thrown st' then (t' # ts, st')
        else (case forEach f ts st' of (ts', st'') \<Rightarrow> (t' # ts', st'')))"

section \<open>retargetAnimation\<close>

text \<open>
  The outcome of a call: the value returned (\<open>None\<close> is \<open>null\<close>), the console, and
  the located source clip as the call leaves it (\<open>None\<close> when no clip was located).
  The \<open>try\<close> block throws only where a track constructor does; the \<open>catch\<close> branch
  then writes the error, if warnings are logged, and returns \<open>null\<close>.
\<close>

record outcome =
  returned :: "animationClip option"
  logged :: "console_message list"
  source_after :: "animationClip option"

text \<open>
  The destructuring of \<open>options\<close> with its defaults.
\<close>

definition customBoneMap_of :: "retargetingOptions \<Rightarrow> string \<Rightarrow> string option option" where
  "customBoneMap_of options = (case customBoneMap options of None \<Rightarrow> Map.empty | Some m \<Rightarrow> m)"

definition logWarnings_of :: "retargetingOptions \<Rightarrow> bool" where
  "logWarnings_of options = (case logWarnings options of None \<Rightarrow> True | Some b \<Rightarrow> b)"

definition animationClipName_of :: "retargetingOptions \<Rightarrow> string" where
  "animationClipName_of options =
     (case animationClipName options of None \<Rightarrow> ''mixamo.com'' | Some n \<Rightarrow> n)"

definition retargetAnimation :: "group \<Rightarrow> vrm \<Rightarrow> retargetingOptions \<Rightarrow> outcome" where
  "retargetAnimation fbxAsset v options =
     (let logW = logWarnings_of options;
          clipName = animationClipName_of options;
          bmap = boneMap (customBoneMap_of options)
      in (case findByName (animations fbxAsset) clipName of
            None \<Rightarrow>
              \<lparr>returned = None,
               logged = (if logW then [ClipNotFound clipName] else []),
               source_after = None\<rparr>
          | Some clip \<Rightarrow>
              (case hipsPositionScale fbxAsset v of
                 None \<Rightarrow>
                   \<lparr>returned = None,
                    logged = (if logW then [HipsScalingFailed] else []),
                    source_after = Some clip\<rparr>
               | Some scale \<Rightarrow>
                   (case forEach (forEachBody fbxAsset v bmap logW scale) (clip_tracks clip)
                           \<lparr>tracks = [], restRotationInverse = new_Quaternion,
                            parentRestWorldRotation = new_Quaternion, console = [],
                            thrown = False\<rparr> of
                      (tracks', st) \<Rightarrow>
                        if thrown st then
                          \<lparr>returned = None,
                           logged = console st @ (if logW then [RetargetFailed] else []),
                           source_after = Some (clip\<lparr>clip_tracks := tracks'\<rparr>)\<rparr>
                        else
                          \<lparr>returned = Some \<lparr>clip_name = ''vrmAnimation'',
                                            clip_duration = clip_duration clip,
                                            clip_tracks = tracks st\<rparr>,
                           logged = console st,
                           source_after = Some (clip\<lparr>clip_tracks := tracks'\<rparr>)\<rparr>))))"

section \<open>Auxiliary notions\<close>

text \<open>
  The four components of a quaternion in the stored order \<open>x, y, z, w\<close>.
\<close>

definition components :: "quaternion \<Rightarrow> jsnum list" where
  "components q = [qx q, qy q, qz q, qw q]"

text \<open>
  The callback builds an output track for a track when its bone resolves to a node of the
  target and its class is one of the two the callback handles.
\<close>

definition yieldsTrack ::
  "vrm \<Rightarrow> (string \<Rightarrow> boneMapValue option) \<Rightarrow> keyframeTrack \<Rightarrow> bool" where
  "yieldsTrack v bmap track \<longleftrightarrow>
     getNormalizedBoneNode v (bmap (mixamoRigName track)) \<noteq> None \<and>
     track_class track \<noteq> OtherKeyframeTrack"

text \<open>
  The scale as the specification words it: each hip height is the vertical offset of the
  hips' world position from the world position of the rig's own scene root, for the source
  and for the target alike, and the scale is their quotient.
\<close>

definition spec_sourceHipHeight :: "group \<Rightarrow> jsnum option" where
  "spec_sourceHipHeight fbxAsset =
     map_option (\<lambda>hips. sub (worldPosition_y hips) (group_worldPosition_y fbxAsset))
       (getObjectByName fbxAsset ''mixamorigHips'')"

definition spec_targetHipHeight :: "vrm \<Rightarrow> jsnum option" where
  "spec_targetHipHeight v =
     map_option (\<lambda>hips. sub (node_worldPosition_y hips) (scene_worldPosition_y v))
       (getNormalizedBoneNode v (Some (BoneName ''hips'')))"

definition spec_computeScale :: "group \<Rightarrow> vrm \<Rightarrow> jsnum option" where
  "spec_computeScale fbxAsset v =
     (case (spec_targetHipHeight v, spec_sourceHipHeight fbxAsset) of
        (Some targetHipHeight, Some sourceHipHeight) \<Rightarrow>
          Some (divide_js targetHipHeight sourceHipHeight)
      | _ \<Rightarrow> None)"

section \<open>Sample inputs\<close>

text \<open>
  A source rig with a hips joint (rest rotation \<open>hipsRest\<close> under a parent turned by
  \<open>armatureRest\<close>, height 90) and a spine joint in identity
  rest; no other joint. A target with hips, spine and chest bones. All quaternions are of
  unit length.
\<close>

definition hipsRest :: quaternion where
  "hipsRest = \<lparr>qx = Num (3/5), qy = Num 0, qz = Num 0, qw = Num (4/5)\<rparr>"

definition armatureRest :: quaternion where
  "armatureRest = \<lparr>qx = Num 0, qy = Num 1, qz = Num 0, qw = Num 0\<rparr>"

definition hipsNode :: object3D where
  "hipsNode = \<lparr>position_y = Num 90, worldPosition_y = Num 90, worldQuaternion = hipsRest,
                parent_worldQuaternion = Some armatureRest\<rparr>"

definition spineNode :: object3D where
  "spineNode = \<lparr>position_y = Num 10, worldPosition_y = Num 100, worldQuaternion = new_Quaternion,
                 parent_worldQuaternion = Some new_Quaternion\<rparr>"

definition sourceNodes :: "string \<Rightarrow> object3D option" where
  "sourceNodes = [''mixamorigHips'' \<mapsto> hipsNode, ''mixamorigSpine'' \<mapsto> spineNode]"

definition assetWith :: "keyframeTrack list \<Rightarrow> group" where
  "assetWith ts =
     \<lparr>animations = [\<lparr>clip_name = ''mixamo.com'', clip_duration = Num 2, clip_tracks = ts\<rparr>],
      getObjectByName = sourceNodes,
      group_worldPosition_y = Num 0\<rparr>"

definition avatar :: "jsnum \<Rightarrow> jsnum \<Rightarrow> string \<Rightarrow> vrm" where
  "avatar hipsY rootY version =
     \<lparr>humanoid = Some
        [''hips'' \<mapsto> \<lparr>node_name = ''Normalized_Hips'', node_worldPosition_y = hipsY\<rparr>,
         ''spine'' \<mapsto> \<lparr>node_name = ''Normalized_Spine'', node_worldPosition_y = add hipsY (Num 10)\<rparr>,
         ''chest'' \<mapsto> \<lparr>node_name = ''Normalized_Chest'', node_worldPosition_y = add hipsY (Num 25)\<rparr>],
      scene_worldPosition_y = rootY,
      meta_metaVersion = Some version\<rparr>"

definition defaultOptions :: retargetingOptions where
  "defaultOptions = \<lparr>customBoneMap = None, logWarnings = None, animationClipName = None\<rparr>"

definition rotationTrack :: "string \<Rightarrow> keyframeTrack" where
  "rotationTrack joint =
     \<lparr>track_class = QuaternionKeyframeTrack, track_name = joint @ ''.quaternion'',
      track_times = [Num 0, Num 1],
      track_values = [Num 0, Num 0, Num 0, Num 1,
                      Num (1/11), Num (2/11), Num (4/11), Num (10/11)]\<rparr>"

definition positionTrack :: "string \<Rightarrow> keyframeTrack" where
  "positionTrack joint =
     \<lparr>track_class = VectorKeyframeTrack, track_name = joint @ ''.position'',
      track_times = [Num 0], track_values = [Num 0, Num 10, Num 0]\<rparr>"

definition visibleTrack :: "string \<Rightarrow> keyframeTrack" where
  "visibleTrack joint =
     \<lparr>track_class = OtherKeyframeTrack, track_name = joint @ ''.visible'',
      track_times = [Num 0], track_values = [Num 1]\<rparr>"


definition initialState :: loopState where
  "initialState = \<lparr>tracks = [], restRotationInverse = new_Quaternion,
     parentRestWorldRotation = new_Quaternion, console = [], thrown = False\<rparr>"

text \<open>
  The same source rig under a parent raised by 10: the hips' world height is 100, the
  local height still 90.
\<close>

definition raisedAsset :: "keyframeTrack list \<Rightarrow> group" where
  "raisedAsset ts =
     (assetWith ts)\<lparr>getObjectByName :=
        sourceNodes(''mixamorigHips'' \<mapsto> hipsNode\<lparr>worldPosition_y := Num 100\<rparr>)\<rparr>"

text \<open>
  The same source rig with the spine as the root of the asset: in identity rest and
  without a parent.
\<close>

definition rootSpineAsset :: "keyframeTrack list \<Rightarrow> group" where
  "rootSpineAsset ts =
     (assetWith ts)\<lparr>getObjectByName :=
        sourceNodes(''mixamorigSpine'' \<mapsto> spineNode\<lparr>parent_worldQuaternion := None\<rparr>)\<rparr>"

section \<open>Properties of the quaternion loop\<close>

lemma nth_writeBack:
  assumes "n < length vals"
  shows "writeBack i flat vals ! n =
           (if i \<le> n \<and> n - i < length flat then flat ! (n - i) else vals ! n)"
proof -
  have "fold (\<lambda>index vs. vs[index + i := flat ! index]) [0..<m] vals ! n =
          (if i \<le> n \<and> n - i < m then flat ! (n - i) else vals ! n)" for m
  proof (induction m)
    case 0
    show ?case by simp
  next
    case (Suc m)
    have len: "length (fold (\<lambda>index vs. vs[index + i := flat ! index]) [0..<m] vals) = length vals"
      using length_writeBack [of i "take m flat" vals]
      by (induction m) simp_all
    show ?case
    proof (cases "n = m + i")
      case True
      with assms len show ?thesis by simp
    next
      case False
      with Suc assms len show ?thesis by (auto simp: nth_list_update)
    qed
  qed
  then show ?thesis by (simp add: writeBack_def)
qed

lemma length_slice [simp]: "length (slice i (i + 4) vals) = min 4 (length vals - i)"
  by (simp add: slice_def)

lemma nth_slice: "m < 4 \<Longrightarrow> i + m < length vals \<Longrightarrow> slice i (i + 4) vals ! m = vals ! (i + m)"
  by (simp add: slice_def)

lemma length_toArray [simp]: "length (toArray q a) = length a"
  by (simp add: toArray_def)

lemma nth_toArray: "m < 4 \<Longrightarrow> m < length a \<Longrightarrow> toArray q a ! m = components q ! m"
proof -
  assume "m < 4" and "m < length a"
  then consider "m = 0" | "m = 1" | "m = 2" | "m = 3" by linarith
  then show ?thesis
    using \<open>m < length a\<close> by cases (simp_all add: toArray_def components_def)
qed

lemma slice_cong:
  assumes "length vs' = length vs" and "\<And>n. c \<le> n \<Longrightarrow> n < length vs \<Longrightarrow> vs' ! n = vs ! n"
  shows "slice c (c + 4) vs' = slice c (c + 4) vs"
proof (rule nth_equalityI)
  show "length (slice c (c + 4) vs') = length (slice c (c + 4) vs)" using assms(1) by simp
next
  fix m assume "m < length (slice c (c + 4) vs')"
  then have m: "m < 4" "c + m < length vs" using assms(1) by auto
  then show "slice c (c + 4) vs' ! m = slice c (c + 4) vs ! m"
    using assms by (simp add: nth_slice)
qed

lemma length_quaternionLoop [simp]: "length (quaternionLoop p r i vals) = length vals"
proof (induction p r i vals rule: quaternionLoop.induct)
  case (1 p r i vals)
  show ?case
  proof (cases "i < length vals")
    case True
    then show ?thesis using 1 by (subst quaternionLoop.simps) (simp add: Let_def)
  next
    case False
    then show ?thesis by (subst quaternionLoop.simps) simp
  qed
qed

lemma nth_quaternionLoop:
  assumes "n < length vals"
  shows "quaternionLoop p r i vals ! n =
    (if n < i then vals ! n
     else components (multiply (premultiply (fromArray
            (slice (n - (n - i) mod 4) (n - (n - i) mod 4 + 4) vals)) p) r) ! ((n - i) mod 4))"
  using assms
proof (induction p r i vals rule: quaternionLoop.induct)
  case (1 p r i vals)
  show ?case
  proof (cases "i < length vals")
    case False
    with 1 show ?thesis by (subst quaternionLoop.simps) simp
  next
    case True
    define flat where "flat = slice i (i + 4) vals"
    define quatA where "quatA = multiply (premultiply (fromArray flat) p) r"
    define vals' where "vals' = writeBack i (toArray quatA flat) vals"
    have unfold: "quaternionLoop p r i vals = quaternionLoop p r (i + 4) vals'"
      using True by (subst quaternionLoop.simps) (simp add: Let_def flat_def quatA_def vals'_def)
    have len: "length vals' = length vals" by (simp add: vals'_def)
    have IH: "quaternionLoop p r (i + 4) vals' ! n =
      (if n < i + 4 then vals' ! n
       else components (multiply (premultiply (fromArray
            (slice (n - (n - (i + 4)) mod 4) (n - (n - (i + 4)) mod 4 + 4) vals')) p) r) !
              ((n - (i + 4)) mod 4))"
      using "1.IH" [OF True refl refl refl refl] "1.prems" len
      by (simp add: vals'_def quatA_def flat_def)
    have later: "vals' ! m = vals ! m" if "i + 4 \<le> m" "m < length vals" for m
    proof -
      have "\<not> m - i < length (toArray quatA flat)" using that by (simp add: flat_def)
      then show ?thesis using that by (simp only: vals'_def nth_writeBack) simp
    qed
    show ?thesis
    proof (cases "n < i")
      case True
      then show ?thesis
        using unfold IH "1.prems" by (simp add: vals'_def nth_writeBack)
    next
      case False
      note ge = this
      show ?thesis
      proof (cases "n < i + 4")
        case True
        have m: "(n - i) mod 4 = n - i" using True ge by simp
        have in_flat: "n - i < 4" "n - i < length flat" "i \<le> n"
          using True ge "1.prems" by (auto simp: flat_def)
        have "vals' ! n = toArray quatA flat ! (n - i)"
          using in_flat "1.prems" by (simp add: vals'_def nth_writeBack)
        then have "vals' ! n = components quatA ! (n - i)"
          using in_flat by (simp add: nth_toArray)
        moreover have "n - (n - i) = i" using ge by simp
        ultimately show ?thesis
          unfolding unfold IH using True ge by (simp only: m quatA_def flat_def if_True if_False)
      next
        case False
        have "n - i = (n - (i + 4)) + 4" using False by simp
        then have md: "(n - (i + 4)) mod 4 = (n - i) mod 4"
          by (metis mod_add_self2)
        have c: "i + 4 \<le> n - (n - i) mod 4"
        proof -
          have "(n - (i + 4)) mod 4 \<le> n - (i + 4)" by simp
          then show ?thesis using False md by linarith
        qed
        have "slice (n - (n - i) mod 4) (n - (n - i) mod 4 + 4) vals' =
              slice (n - (n - i) mod 4) (n - (n - i) mod 4 + 4) vals"
          using len later c by (intro slice_cong) simp_all
        then show ?thesis using unfold IH False ge md by simp
      qed
    qed
  qed
qed

lemma quaternionLoop_keyframe:
  assumes "4 * k + 3 < length vals"
  shows "fromArray (slice (4 * k) (4 * k + 4) (quaternionLoop p r 0 vals)) =
         multiply (premultiply (fromArray (slice (4 * k) (4 * k + 4) vals)) p) r"
proof -
  have n: "quaternionLoop p r 0 vals ! (4 * k + m) =
        components (multiply (premultiply (fromArray (slice (4 * k) (4 * k + 4) vals)) p) r) ! m"
    if "m < 4" for m
  proof -
    have "(4 * k + m) mod 4 = m" using that by simp
    then show ?thesis
      using nth_quaternionLoop [of "4 * k + m" vals p r 0] assms that by simp
  qed
  show ?thesis
    using assms n [of 0] n [of 1] n [of 2] n [of 3]
    by (simp add: fromArray_def element_def nth_slice components_def)
qed

section \<open>Properties of the callback and of the loop over the tracks\<close>

lemma push_new_KeyframeTrack_times:
  assumes "tms \<noteq> []"
  shows "push_new_KeyframeTrack c n tms vals st =
    st\<lparr>tracks := tracks st @
       [\<lparr>track_class = c, track_name = n, track_times = tms, track_values = vals\<rparr>]\<rparr>"
  using assms by (simp add: push_new_KeyframeTrack_def new_KeyframeTrack_def)

lemma push_new_KeyframeTrack_no_times:
  "push_new_KeyframeTrack c n [] vals st = st\<lparr>thrown := True\<rparr>"
  by (simp add: push_new_KeyframeTrack_def new_KeyframeTrack_def)

lemma forEachBody_quaternion:
  assumes "track_class track = QuaternionKeyframeTrack"
    and "getNormalizedBoneNode v (bmap (mixamoRigName track)) = Some target"
  shows "forEachBody fbxAsset v bmap logW scale track st =
    (let st1 = storeRestRotations (getObjectByName fbxAsset (mixamoRigName track)) st;
         vals = quaternionLoop (parentRestWorldRotation st1) (restRotationInverse st1) 0 (track_values track)
     in (track\<lparr>track_values := vals\<rparr>,
         push_new_KeyframeTrack QuaternionKeyframeTrack
           (node_name target @ ''.'' @ propertyName track) (track_times track)
           (map_index (quaternionValue v) vals) st1))"
  using assms by (simp add: forEachBody_def Let_def)

lemma forEachBody_vector:
  assumes "track_class track = VectorKeyframeTrack"
    and "getNormalizedBoneNode v (bmap (mixamoRigName track)) = Some target"
  shows "forEachBody fbxAsset v bmap logW scale track st =
    (let st1 = storeRestRotations (getObjectByName fbxAsset (mixamoRigName track)) st
     in (track,
         push_new_KeyframeTrack VectorKeyframeTrack
           (node_name target @ ''.'' @ propertyName track) (track_times track)
           (map_index (vectorValue v scale) (track_values track)) st1))"
  using assms by (simp add: forEachBody_def Let_def)

lemma forEachBody_other:
  assumes "track_class track = OtherKeyframeTrack"
    and "getNormalizedBoneNode v (bmap (mixamoRigName track)) = Some target"
  shows "forEachBody fbxAsset v bmap logW scale track st =
    (track, storeRestRotations (getObjectByName fbxAsset (mixamoRigName track)) st)"
  using assms by (simp add: forEachBody_def Let_def)

lemma forEachBody_no_target:
  assumes "getNormalizedBoneNode v (bmap (mixamoRigName track)) = None"
  shows "forEachBody fbxAsset v bmap logW scale track st =
    (track,
     case bmap (mixamoRigName track) of
       None \<Rightarrow> st
     | Some held \<Rightarrow>
         if logW \<and> truthyValue (Some held)
         then st\<lparr>console := console st @ [VrmBoneNotFound held (mixamoRigName track)]\<rparr>
         else st)"
  using assms by (simp add: forEachBody_def Let_def split: option.splits)

lemma tracks_storeRestRotations [simp]: "tracks (storeRestRotations n st) = tracks st"
  by (simp add: storeRestRotations_def Let_def split: option.splits)

lemma console_storeRestRotations [simp]: "console (storeRestRotations n st) = console st"
  by (simp add: storeRestRotations_def Let_def split: option.splits)

lemma thrown_storeRestRotations [simp]: "thrown (storeRestRotations n st) = thrown st"
  by (simp add: storeRestRotations_def Let_def split: option.splits)

lemma forEachBody_thrown:
  "thrown (snd (forEachBody fbxAsset v bmap logW scale track st)) \<longleftrightarrow>
     thrown st \<or> (yieldsTrack v bmap track \<and> track_times track = [])"
proof (cases "getNormalizedBoneNode v (bmap (mixamoRigName track))")
  case None
  then show ?thesis
    by (simp add: forEachBody_no_target yieldsTrack_def split: option.splits)
next
  case (Some target)
  show ?thesis
  proof (cases "track_times track = []")
    case True
    with Some show ?thesis
      by (cases "track_class track")
         (simp_all add: forEachBody_quaternion forEachBody_vector forEachBody_other
            yieldsTrack_def Let_def push_new_KeyframeTrack_no_times)
  next
    case False
    with Some show ?thesis
      by (cases "track_class track")
         (simp_all add: forEachBody_quaternion forEachBody_vector forEachBody_other
            yieldsTrack_def Let_def push_new_KeyframeTrack_times)
  qed
qed

lemma forEachBody_tracks_length:
  assumes "yieldsTrack v bmap track \<longrightarrow> track_times track \<noteq> []"
  shows "length (tracks (snd (forEachBody fbxAsset v bmap logW scale track st))) =
     length (tracks st) + (if yieldsTrack v bmap track then 1 else 0)"
proof (cases "getNormalizedBoneNode v (bmap (mixamoRigName track))")
  case None
  then show ?thesis
    by (simp add: forEachBody_no_target yieldsTrack_def split: option.splits)
next
  case (Some target)
  with assms show ?thesis
    by (cases "track_class track")
       (simp_all add: forEachBody_quaternion forEachBody_vector forEachBody_other
          yieldsTrack_def Let_def push_new_KeyframeTrack_times)
qed

lemma forEach_thrown:
  assumes "\<not> thrown st"
  shows "thrown (snd (forEach (forEachBody fbxAsset v bmap logW scale) ts st)) \<longleftrightarrow>
     (\<exists>t \<in> set ts. yieldsTrack v bmap t \<and> track_times t = [])"
  using assms
proof (induction ts arbitrary: st)
  case Nil
  then show ?case by simp
next
  case (Cons t ts)
  obtain t' st' where b: "forEachBody fbxAsset v bmap logW scale t st = (t', st')"
    by (cases "forEachBody fbxAsset v bmap logW scale t st")
  obtain ts' st'' where r: "forEach (forEachBody fbxAsset v bmap logW scale) ts st' = (ts', st'')"
    by (cases "forEach (forEachBody fbxAsset v bmap logW scale) ts st'")
  have head: "thrown st' \<longleftrightarrow> yieldsTrack v bmap t \<and> track_times t = []"
    using forEachBody_thrown [of fbxAsset v bmap logW scale t st] b Cons.prems by simp
  show ?case
  proof (cases "thrown st'")
    case True
    with head b show ?thesis by simp
  next
    case False
    have "thrown st'' \<longleftrightarrow> (\<exists>t \<in> set ts. yieldsTrack v bmap t \<and> track_times t = [])"
      using Cons.IH [OF False] r by simp
    with False head b r show ?thesis by auto
  qed
qed

lemma forEach_tracks_length:
  assumes "\<not> thrown st"
    and "\<forall>t \<in> set ts. yieldsTrack v bmap t \<longrightarrow> track_times t \<noteq> []"
  shows "length (tracks (snd (forEach (forEachBody fbxAsset v bmap logW scale) ts st))) =
     length (tracks st) + length (filter (yieldsTrack v bmap) ts)"
  using assms
proof (induction ts arbitrary: st)
  case Nil
  then show ?case by simp
next
  case (Cons t ts)
  obtain t' st' where b: "forEachBody fbxAsset v bmap logW scale t st = (t', st')"
    by (cases "forEachBody fbxAsset v bmap logW scale t st")
  obtain ts' st'' where r: "forEach (forEachBody fbxAsset v bmap logW scale) ts st' = (ts', st'')"
    by (cases "forEach (forEachBody fbxAsset v bmap logW scale) ts st'")
  have going: "\<not> thrown st'"
    using forEachBody_thrown [of fbxAsset v bmap logW scale t st] b Cons.prems by simp
  have "length (tracks st') = length (tracks st) + (if yieldsTrack v bmap t then 1 else 0)"
    using forEachBody_tracks_length [of v bmap t fbxAsset logW scale st] b Cons.prems by simp
  moreover have "length (tracks st'') = length (tracks st') + length (filter (yieldsTrack v bmap) ts)"
    using Cons.IH [OF going] Cons.prems r by simp
  ultimately show ?case using b r going by simp
qed

lemma length_map_index [simp]: "length (map_index f a) = length a"
  by (simp add: map_index_def)

lemma nth_map_index: "i < length a \<Longrightarrow> map_index f a ! i = f (a ! i) i"
  by (simp add: map_index_def nth_enumerate_eq)


lemma storeRestRotations_node:
  assumes "parent_worldQuaternion node = Some p"
  shows "restRotationInverse (storeRestRotations (Some node) st) = invert (worldQuaternion node)"
    and "parentRestWorldRotation (storeRestRotations (Some node) st) = p"
  using assms by (simp_all add: storeRestRotations_def Let_def)

lemma correction_keyframe:
  assumes "4 * k + 3 < length vals"
  shows "fromArray (slice (4 * k) (4 * k + 4) (map_index (quaternionValue v) vals)) =
    (let q = fromArray (slice (4 * k) (4 * k + 4) vals)
     in if meta_metaVersion v = Some ''0''
        then \<lparr>qx = neg (qx q), qy = qy q, qz = neg (qz q), qw = qw q\<rparr> else q)"
proof -
  have par: "(4 * k) mod 2 = 0" "(4 * k + 1) mod 2 = 1" "(4 * k + 2) mod 2 = 0" "(4 * k + 3) mod 2 = 1"
    by presburger+
  have n: "map_index (quaternionValue v) vals ! (4 * k + m) = quaternionValue v (vals ! (4 * k + m)) (4 * k + m)"
    if "m < 4" for m
    using that assms by (simp add: nth_map_index)
  show ?thesis
    using assms n [of 0] n [of 1] n [of 2] n [of 3] par
    by (simp add: fromArray_def element_def nth_slice quaternionValue_def Let_def)
qed

lemma getNormalizedBoneNode_undefined [simp]: "getNormalizedBoneNode v None = None"
  by (simp add: getNormalizedBoneNode_def split: option.splits)

lemma forEachBody_console_unchanged:
  assumes "bmap (mixamoRigName track) = None \<or>
           getNormalizedBoneNode v (bmap (mixamoRigName track)) \<noteq> None"
  shows "console (snd (forEachBody fbxAsset v bmap logW scale track st)) = console st"
proof (cases "getNormalizedBoneNode v (bmap (mixamoRigName track))")
  case None
  with assms show ?thesis by (simp add: forEachBody_no_target)
next
  case (Some target)
  then show ?thesis
    by (cases "track_class track")
       (simp_all add: forEachBody_quaternion forEachBody_vector forEachBody_other Let_def
          push_new_KeyframeTrack_def split: option.splits)
qed

lemma forEach_console_unchanged:
  assumes "\<forall>t \<in> set ts. bmap (mixamoRigName t) = None \<or>
             getNormalizedBoneNode v (bmap (mixamoRigName t)) \<noteq> None"
  shows "console (snd (forEach (forEachBody fbxAsset v bmap logW scale) ts st)) = console st"
  using assms
proof (induction ts arbitrary: st)
  case Nil
  then show ?case by simp
next
  case (Cons t ts)
  obtain t' st' where b: "forEachBody fbxAsset v bmap logW scale t st = (t', st')"
    by (cases "forEachBody fbxAsset v bmap logW scale t st")
  obtain ts' st'' where r: "forEach (forEachBody fbxAsset v bmap logW scale) ts st' = (ts', st'')"
    by (cases "forEach (forEachBody fbxAsset v bmap logW scale) ts st'")
  have "console st' = console st"
    using forEachBody_console_unchanged [of bmap t v fbxAsset logW scale st] Cons.prems b by simp
  moreover have "console st'' = console st'"
    using Cons.IH [of st'] Cons.prems r by simp
  ultimately show ?case using b r by simp
qed

text \<open>
  The rest pose formula, for a rotation track whose joint exists in the source rig and has a
  parent there: the array the loop leaves holds \<open>P_rest \<cdot> q \<cdot> R_rest\<inverse>\<close> at every
  complete keyframe, and the pushed track has the times of the input and as many values.
\<close>

lemma quaternion_track_rest_pose_formula:
  assumes "track_class track = QuaternionKeyframeTrack"
    and "getNormalizedBoneNode v (bmap (mixamoRigName track)) = Some target"
    and "getObjectByName fbxAsset (mixamoRigName track) = Some node"
    and "parent_worldQuaternion node = Some P_rest"
    and "track_times track \<noteq> []"
  shows "\<exists>out.
     tracks (snd (forEachBody fbxAsset v bmap logW scale track st)) = tracks st @ [out] \<and>
     track_times out = track_times track \<and>
     length (track_values out) = length (track_values track) \<and>
     track_values out =
       map_index (quaternionValue v) (track_values (fst (forEachBody fbxAsset v bmap logW scale track st))) \<and>
     (\<forall>k. 4 * k + 3 < length (track_values track) \<longrightarrow>
        fromArray (slice (4 * k) (4 * k + 4)
          (track_values (fst (forEachBody fbxAsset v bmap logW scale track st)))) =
        multiplyQuaternions
          (multiplyQuaternions P_rest (fromArray (slice (4 * k) (4 * k + 4) (track_values track))))
          (invert (worldQuaternion node)))"
  using assms
  by (simp add: forEachBody_quaternion Let_def storeRestRotations_node quaternionLoop_keyframe
        multiply_def premultiply_def push_new_KeyframeTrack_times)

text \<open>
  A call that locates its clip and computes the scale, in terms of the run of the loop.
\<close>

lemma retargetAnimation_located:
  assumes "findByName (animations fbxAsset) (animationClipName_of options) = Some clip"
    and "hipsPositionScale fbxAsset v = Some scale"
    and "run = forEach
      (forEachBody fbxAsset v (boneMap (customBoneMap_of options)) (logWarnings_of options) scale)
      (clip_tracks clip)
      \<lparr>tracks = [], restRotationInverse = new_Quaternion,
       parentRestWorldRotation = new_Quaternion, console = [], thrown = False\<rparr>"
  shows "returned (retargetAnimation fbxAsset v options) =
           (if thrown (snd run) then None
            else Some \<lparr>clip_name = ''vrmAnimation'', clip_duration = clip_duration clip,
                       clip_tracks = tracks (snd run)\<rparr>)"
    and "logged (retargetAnimation fbxAsset v options) =
           (if thrown (snd run)
            then console (snd run) @ (if logWarnings_of options then [RetargetFailed] else [])
            else console (snd run))"
  using assms by (simp_all add: retargetAnimation_def Let_def case_prod_beta)

section \<open>Properties of the scale\<close>



text \<open>
  \<open>invert\<close> is the conjugate; on a quaternion of unit length it is the inverse.
\<close>

lemma invert_unit:
  assumes "q = \<lparr>qx = Num a, qy = Num b, qz = Num c, qw = Num d\<rparr>"
    and "a * a + b * b + c * c + d * d = 1"
  shows "multiplyQuaternions q (invert q) = new_Quaternion"
    and "multiplyQuaternions (invert q) q = new_Quaternion"
  using assms by (simp_all add: multiplyQuaternions_def invert_def new_Quaternion_def algebra_simps)

section \<open>The claims\<close>

text \<open>
  C1. Every keyframe \<open>q\<close> of a retargeted rotation track becomes
  \<open>P_rest \<cdot> q \<cdot> R_rest\<inverse>\<close> before the correction for the coordinate convention, with
  \<open>R_rest\<close> the rest rotation of the track's own joint and \<open>P_rest\<close> that of its
  parent (the identity for a joint without a parent). For a joint that has a parent in the
  source rig this is \<open>quaternion_track_rest_pose_formula\<close>. It fails for a joint without
  one: the scratch quaternion \<open>parentRestWorldRotation\<close> is shared by all tracks and keeps
  the rotation stored for the track before. Here the spine is the root of the asset, in
  identity rest: retargeted alone its keyframes come out as they went in, retargeted after
  the hips they come out multiplied by the rest rotation of the parent of the hips.
\<close>

theorem parentless_joint_retargeted_with_stale_parent_rotation:
  "getObjectByName (rootSpineAsset []) ''mixamorigSpine'' =
     Some \<lparr>position_y = Num 10, worldPosition_y = Num 100,
           worldQuaternion = \<lparr>qx = Num 0, qy = Num 0, qz = Num 0, qw = Num 1\<rparr>,
           parent_worldQuaternion = None\<rparr> \<and>
   returned (retargetAnimation (rootSpineAsset [rotationTrack ''mixamorigSpine''])
      (avatar (Num 135) (Num 0) ''1'') defaultOptions) =
     Some \<lparr>clip_name = ''vrmAnimation'', clip_duration = Num 2,
           clip_tracks =
            [\<lparr>track_class = QuaternionKeyframeTrack,
              track_name = ''Normalized_Spine.quaternion'', track_times = [Num 0, Num 1],
              track_values = [Num 0, Num 0, Num 0, Num 1,
                              Num (1/11), Num (2/11), Num (4/11), Num (10/11)]\<rparr>]\<rparr> \<and>
   returned (retargetAnimation
      (rootSpineAsset [rotationTrack ''mixamorigHips'', rotationTrack ''mixamorigSpine''])
      (avatar (Num 135) (Num 0) ''1'') defaultOptions) =
     Some \<lparr>clip_name = ''vrmAnimation'', clip_duration = Num 2,
           clip_tracks =
            [\<lparr>track_class = QuaternionKeyframeTrack,
              track_name = ''Normalized_Hips.quaternion'', track_times = [Num 0, Num 1],
              track_values = [Num 0, Num (4/5), Num (3/5), Num 0,
                              Num (2/5), Num (43/55), Num (26/55), Num (4/55)]\<rparr>,
             \<lparr>track_class = QuaternionKeyframeTrack,
              track_name = ''Normalized_Spine.quaternion'', track_times = [Num 0, Num 1],
              track_values = [Num 0, Num 1, Num 0, Num 0,
                              Num (4/11), Num (10/11), Num (- (1/11)), Num (- (2/11))]\<rparr>]\<rparr>"
  by code_simp

text \<open>
  C2. The source clip is left unchanged by a call. This fails for rotation tracks: the
  loop stores every retargeted quaternion back into \<open>track.values\<close> of the source
  track. At the sample hips track the located clip holds the retargeted values after the
  call, and a second call on the asset as the first call left it returns other values than
  the first.
\<close>

theorem source_rotation_values_overwritten:
  "findByName (animations (assetWith [rotationTrack ''mixamorigHips''])) ''mixamo.com'' =
     Some \<lparr>clip_name = ''mixamo.com'', clip_duration = Num 2,
           clip_tracks = [\<lparr>track_class = QuaternionKeyframeTrack,
             track_name = ''mixamorigHips.quaternion'', track_times = [Num 0, Num 1],
             track_values = [Num 0, Num 0, Num 0, Num 1,
                             Num (1/11), Num (2/11), Num (4/11), Num (10/11)]\<rparr>]\<rparr> \<and>
   source_after (retargetAnimation (assetWith [rotationTrack ''mixamorigHips''])
      (avatar (Num 135) (Num 0) ''1'') defaultOptions) =
     Some \<lparr>clip_name = ''mixamo.com'', clip_duration = Num 2,
           clip_tracks = [\<lparr>track_class = QuaternionKeyframeTrack,
             track_name = ''mixamorigHips.quaternion'', track_times = [Num 0, Num 1],
             track_values = [Num 0, Num (4/5), Num (3/5), Num 0,
                             Num (2/5), Num (43/55), Num (26/55), Num (4/55)]\<rparr>]\<rparr> \<and>
   returned (retargetAnimation (assetWith [rotationTrack ''mixamorigHips''])
      (avatar (Num 135) (Num 0) ''1'') defaultOptions) =
     Some \<lparr>clip_name = ''vrmAnimation'', clip_duration = Num 2,
           clip_tracks = [\<lparr>track_class = QuaternionKeyframeTrack,
             track_name = ''Normalized_Hips.quaternion'', track_times = [Num 0, Num 1],
             track_values = [Num 0, Num (4/5), Num (3/5), Num 0,
                             Num (2/5), Num (43/55), Num (26/55), Num (4/55)]\<rparr>]\<rparr> \<and>
   returned (retargetAnimation
      (assetWith [(rotationTrack ''mixamorigHips'')\<lparr>track_values :=
         [Num 0, Num (4/5), Num (3/5), Num 0, Num (2/5), Num (43/55), Num (26/55), Num (4/55)]\<rparr>])
      (avatar (Num 135) (Num 0) ''1'') defaultOptions) =
     Some \<lparr>clip_name = ''vrmAnimation'', clip_duration = Num 2,
           clip_tracks = [\<lparr>track_class = QuaternionKeyframeTrack,
             track_name = ''Normalized_Hips.quaternion'', track_times = [Num 0, Num 1],
             track_values = [Num (24/25), Num 0, Num 0, Num (- (7/25)),
                             Num (233/275), Num (82/275), Num (- (76/275)), Num (- (94/275))]\<rparr>]\<rparr>"
  by code_simp

text \<open>
  C3. The scale is the quotient of the two hip heights, each measured as the offset of the
  hips' world position from the world position of the rig's scene root. This fails for the
  source: on the raised rig the program divides by the local height 90 and returns
  \<open>3/2\<close>, while the quotient of the world offsets is \<open>135/100\<close>.
\<close>

theorem scale_is_not_quotient_of_world_offsets:
  "hipsPositionScale (raisedAsset []) (avatar (Num 135) (Num 0) ''1'') = Some (Num (3/2)) \<and>
   spec_computeScale (raisedAsset []) (avatar (Num 135) (Num 0) ''1'') = Some (Num (27/20))"
  by code_simp

text \<open>
  C3, amended. When the scale is computed, it is
  \<open>|targetHipsWorldY - targetSceneWorldY| / sourceHipsLocalY\<close>: the target height is the
  absolute offset of the hips' world position from the scene's world position, the source
  height is \<open>position.y\<close> of the source hips, its local height.
\<close>

theorem hipsPositionScale_formula:
  assumes "hipsPositionScale fbxAsset v = Some scale"
  shows "\<exists>hips node.
     getNormalizedBoneNode v (Some (BoneName ''hips'')) = Some hips \<and>
     getObjectByName fbxAsset ''mixamorigHips'' = Some node \<and>
     scale = divide_js (Math_abs (sub (node_worldPosition_y hips) (scene_worldPosition_y v)))
               (position_y node)"
  using assms
  by (auto simp: hipsPositionScale_def vrmHipsY_def motionHipsHeight_def vrmRootY_def
        vrmHipsHeight_def split: if_splits option.splits)

text \<open>
  The theorem at the raised rig and a target whose hips lie 135 below its scene root.
\<close>

theorem hipsPositionScale_formula_witness:
  "hipsPositionScale (raisedAsset []) (avatar (Num (-135)) (Num 0) ''1'') = Some (Num (3/2)) \<and>
   (\<exists>hips node.
     getNormalizedBoneNode (avatar (Num (-135)) (Num 0) ''1'') (Some (BoneName ''hips'')) = Some hips \<and>
     getObjectByName (raisedAsset []) ''mixamorigHips'' = Some node \<and>
     Num (3/2) = divide_js (Math_abs (sub (node_worldPosition_y hips)
                   (scene_worldPosition_y (avatar (Num (-135)) (Num 0) ''1'')))) (position_y node))"
proof -
  have h: "hipsPositionScale (raisedAsset []) (avatar (Num (-135)) (Num 0) ''1'') = Some (Num (3/2))"
    by code_simp
  show ?thesis using hipsPositionScale_formula [OF h] h by simp
qed

text \<open>
  C4. Under \<open>metaVersion '0'\<close> the correction negates the \<open>w\<close> and \<open>y\<close> components.
  This fails: the components at even indices of the stored order \<open>x, y, z, w\<close> are
  \<open>x\<close> and \<open>z\<close>. The spine of the sample rig is in identity rest, so the values before
  the correction are the input; its second keyframe \<open>(1/11, 2/11, 4/11, 10/11)\<close> comes
  out as \<open>(-1/11, 2/11, -4/11, 10/11)\<close>.
\<close>

theorem older_convention_keeps_w_and_y:
  "source_after (retargetAnimation (assetWith [rotationTrack ''mixamorigSpine''])
      (avatar (Num 135) (Num 0) ''0'') defaultOptions) =
     Some \<lparr>clip_name = ''mixamo.com'', clip_duration = Num 2,
           clip_tracks = [\<lparr>track_class = QuaternionKeyframeTrack,
             track_name = ''mixamorigSpine.quaternion'', track_times = [Num 0, Num 1],
             track_values = [Num 0, Num 0, Num 0, Num 1,
                             Num (1/11), Num (2/11), Num (4/11), Num (10/11)]\<rparr>]\<rparr> \<and>
   returned (retargetAnimation (assetWith [rotationTrack ''mixamorigSpine''])
      (avatar (Num 135) (Num 0) ''0'') defaultOptions) =
     Some \<lparr>clip_name = ''vrmAnimation'', clip_duration = Num 2,
           clip_tracks = [\<lparr>track_class = QuaternionKeyframeTrack,
             track_name = ''Normalized_Spine.quaternion'', track_times = [Num 0, Num 1],
             track_values = [Num 0, Num 0, Num 0, Num 1,
                             Num (- (1/11)), Num (2/11), Num (- (4/11)), Num (10/11)]\<rparr>]\<rparr>"
  by code_simp

text \<open>
  C4, amended. For every retargeted rotation track (a track with keyframe times: without
  them the constructor of the output track throws and nothing is retargeted) and every
  complete keyframe, the output quaternion is the quaternion the loop left with \<open>x\<close> and
  \<open>z\<close> negated and \<open>y\<close> and \<open>w\<close> unchanged when \<open>metaVersion\<close> is \<open>'0'\<close>, and
  that quaternion unchanged otherwise.
\<close>

theorem convention_correction_negates_x_and_z:
  assumes "track_class track = QuaternionKeyframeTrack"
    and "getNormalizedBoneNode v (bmap (mixamoRigName track)) = Some target"
    and "track_times track \<noteq> []"
  shows "\<exists>out.
     tracks (snd (forEachBody fbxAsset v bmap logW scale track st)) = tracks st @ [out] \<and>
     (\<forall>k. 4 * k + 3 < length (track_values track) \<longrightarrow>
        fromArray (slice (4 * k) (4 * k + 4) (track_values out)) =
        (let q = fromArray (slice (4 * k) (4 * k + 4)
                   (track_values (fst (forEachBody fbxAsset v bmap logW scale track st))))
         in if meta_metaVersion v = Some ''0''
            then \<lparr>qx = neg (qx q), qy = qy q, qz = neg (qz q), qw = qw q\<rparr> else q))"
  using assms
  by (simp add: forEachBody_quaternion Let_def correction_keyframe push_new_KeyframeTrack_times)

text \<open>
  The theorem at the rotation track of the sample hips and a target of version \<open>'0'\<close>;
  the second keyframe of the output is the second keyframe the loop left,
  \<open>(2/5, 43/55, 26/55, 4/55)\<close>, with \<open>x\<close> and \<open>z\<close> negated.
\<close>

theorem convention_correction_negates_x_and_z_witness:
  "track_class (rotationTrack ''mixamorigHips'') = QuaternionKeyframeTrack \<and>
   getNormalizedBoneNode (avatar (Num 135) (Num 0) ''0'') (boneMap (customBoneMap_of defaultOptions) (mixamoRigName (rotationTrack ''mixamorigHips''))) =
     Some \<lparr>node_name = ''Normalized_Hips'', node_worldPosition_y = Num 135\<rparr> \<and>
   track_times (rotationTrack ''mixamorigHips'') = [Num 0, Num 1] \<and>
   fromArray (slice 4 8 (track_values (fst (forEachBody (assetWith [rotationTrack ''mixamorigHips'']) (avatar (Num 135) (Num 0) ''0'') (boneMap (customBoneMap_of defaultOptions)) True (Num (3/2)) (rotationTrack ''mixamorigHips'') initialState)))) =
     \<lparr>qx = Num (2/5), qy = Num (43/55), qz = Num (26/55), qw = Num (4/55)\<rparr> \<and>
   (\<exists>out.
     tracks (snd (forEachBody (assetWith [rotationTrack ''mixamorigHips'']) (avatar (Num 135) (Num 0) ''0'') (boneMap (customBoneMap_of defaultOptions)) True (Num (3/2)) (rotationTrack ''mixamorigHips'') initialState)) = tracks initialState @ [out] \<and>
     fromArray (slice 4 8 (track_values out)) =
       \<lparr>qx = Num (- (2/5)), qy = Num (43/55), qz = Num (- (26/55)), qw = Num (4/55)\<rparr>)"
proof -
  have h1: "track_class (rotationTrack ''mixamorigHips'') = QuaternionKeyframeTrack"
    by (simp add: rotationTrack_def)
  have h2: "getNormalizedBoneNode (avatar (Num 135) (Num 0) ''0'') (boneMap (customBoneMap_of defaultOptions) (mixamoRigName (rotationTrack ''mixamorigHips''))) =
     Some \<lparr>node_name = ''Normalized_Hips'', node_worldPosition_y = Num 135\<rparr>"
    by code_simp
  have tms: "track_times (rotationTrack ''mixamorigHips'') = [Num 0, Num 1]"
    by (simp add: rotationTrack_def)
  have h3: "track_times (rotationTrack ''mixamorigHips'') \<noteq> []"
    by (simp add: tms)
  have left: "fromArray (slice 4 8 (track_values (fst (forEachBody (assetWith [rotationTrack ''mixamorigHips'']) (avatar (Num 135) (Num 0) ''0'') (boneMap (customBoneMap_of defaultOptions)) True (Num (3/2)) (rotationTrack ''mixamorigHips'') initialState)))) =
     \<lparr>qx = Num (2/5), qy = Num (43/55), qz = Num (26/55), qw = Num (4/55)\<rparr>"
    by code_simp
  have len: "4 * 1 + 3 < length (track_values (rotationTrack ''mixamorigHips''))"
    by (simp add: rotationTrack_def)
  have m: "meta_metaVersion (avatar (Num 135) (Num 0) ''0'') = Some ''0''"
    by (simp add: avatar_def)
  from convention_correction_negates_x_and_z [where logW = True and scale = "Num (3/2)"
            and st = initialState
            and fbxAsset = "assetWith [rotationTrack ''mixamorigHips'']"
            and bmap = "boneMap (customBoneMap_of defaultOptions)"
            and track = "rotationTrack ''mixamorigHips''", OF h1 h2 h3]
  obtain out where out:
    "tracks (snd (forEachBody (assetWith [rotationTrack ''mixamorigHips'']) (avatar (Num 135) (Num 0) ''0'') (boneMap (customBoneMap_of defaultOptions)) True (Num (3/2)) (rotationTrack ''mixamorigHips'') initialState)) = tracks initialState @ [out]"
    "\<forall>k. 4 * k + 3 < length (track_values (rotationTrack ''mixamorigHips'')) \<longrightarrow>
        fromArray (slice (4 * k) (4 * k + 4) (track_values out)) =
        (let q = fromArray (slice (4 * k) (4 * k + 4) (track_values (fst (forEachBody (assetWith [rotationTrack ''mixamorigHips'']) (avatar (Num 135) (Num 0) ''0'') (boneMap (customBoneMap_of defaultOptions)) True (Num (3/2)) (rotationTrack ''mixamorigHips'') initialState))))
         in if meta_metaVersion (avatar (Num 135) (Num 0) ''0'') = Some ''0''
            then \<lparr>qx = neg (qx q), qy = qy q, qz = neg (qz q), qw = qw q\<rparr> else q)"
    by blast
  have "fromArray (slice (4 * 1) (4 * 1 + 4) (track_values out)) =
        (let q = fromArray (slice (4 * 1) (4 * 1 + 4) (track_values (fst (forEachBody (assetWith [rotationTrack ''mixamorigHips'']) (avatar (Num 135) (Num 0) ''0'') (boneMap (customBoneMap_of defaultOptions)) True (Num (3/2)) (rotationTrack ''mixamorigHips'') initialState))))
         in if meta_metaVersion (avatar (Num 135) (Num 0) ''0'') = Some ''0''
            then \<lparr>qx = neg (qx q), qy = qy q, qz = neg (qz q), qw = qw q\<rparr> else q)"
    using out(2) len by blast
  then have "fromArray (slice 4 8 (track_values out)) =
       \<lparr>qx = Num (- (2/5)), qy = Num (43/55), qz = Num (- (26/55)), qw = Num (4/55)\<rparr>"
    using left m by (simp add: Let_def)
  with out(1) have "\<exists>out.
     tracks (snd (forEachBody (assetWith [rotationTrack ''mixamorigHips'']) (avatar (Num 135) (Num 0) ''0'') (boneMap (customBoneMap_of defaultOptions)) True (Num (3/2)) (rotationTrack ''mixamorigHips'') initialState)) = tracks initialState @ [out] \<and>
     fromArray (slice 4 8 (track_values out)) =
       \<lparr>qx = Num (- (2/5)), qy = Num (43/55), qz = Num (- (26/55)), qw = Num (4/55)\<rparr>"
    by blast
  then show ?thesis by (rule conjI [OF h1 conjI [OF h2 conjI [OF tms conjI [OF left]]]])
qed

text \<open>
  C5. Tracks of joints without an entry in the bone map are dropped, the loop goes on, and
  one warning is written per dropped track. The last part fails: the warning of the
  callback is guarded by \<open>vrmBoneName\<close> being truthy, so a joint for which the lookup
  yields \<open>undefined\<close> is passed over without any. Here the track of \<open>mixamorigTail\<close> is
  dropped and the console stays empty.
\<close>

theorem unmapped_track_dropped_but_not_reported:
  "boneMap (customBoneMap_of defaultOptions) (mixamoRigName (rotationTrack ''mixamorigTail'')) = None \<and>
   returned (retargetAnimation
      (assetWith [rotationTrack ''mixamorigHips'', rotationTrack ''mixamorigTail''])
      (avatar (Num 135) (Num 0) ''1'') defaultOptions) =
     Some \<lparr>clip_name = ''vrmAnimation'', clip_duration = Num 2,
           clip_tracks = [\<lparr>track_class = QuaternionKeyframeTrack,
             track_name = ''Normalized_Hips.quaternion'', track_times = [Num 0, Num 1],
             track_values = [Num 0, Num (4/5), Num (3/5), Num 0,
                             Num (2/5), Num (43/55), Num (26/55), Num (4/55)]\<rparr>]\<rparr> \<and>
   logged (retargetAnimation
      (assetWith [rotationTrack ''mixamorigHips'', rotationTrack ''mixamorigTail''])
      (avatar (Num 135) (Num 0) ''1'') defaultOptions) = []"
  by code_simp

text \<open>
  C5, amended. The joints without an entry are those for which the lookup in the merged
  bone map yields \<open>undefined\<close>: no own key, and no property of \<open>Object.prototype\<close> of
  that name. When the clip is located, the scale is computed, and every track of another
  joint is retargeted (its bone resolves to a node of the target, it is a rotation or a
  position track, and it has keyframe times), the call returns a clip with as many tracks as
  the source clip less the tracks of the joints without an entry, and nothing is written
  to the console: such a track is dropped without a warning.
\<close>

theorem unmapped_tracks_dropped_without_warning:
  assumes "findByName (animations fbxAsset) (animationClipName_of options) = Some clip"
    and "hipsPositionScale fbxAsset v = Some scale"
    and "\<forall>t \<in> set (clip_tracks clip).
           boneMap (customBoneMap_of options) (mixamoRigName t) \<noteq> None \<longrightarrow>
           yieldsTrack v (boneMap (customBoneMap_of options)) t \<and> track_times t \<noteq> []"
  shows "\<exists>out. returned (retargetAnimation fbxAsset v options) = Some out \<and>
     length (clip_tracks out) =
       length (clip_tracks clip) -
       length (filter (\<lambda>t. boneMap (customBoneMap_of options) (mixamoRigName t) = None)
                 (clip_tracks clip)) \<and>
     logged (retargetAnimation fbxAsset v options) = []"
proof -
  define bmap where "bmap = boneMap (customBoneMap_of options)"
  define run where "run = forEach (forEachBody fbxAsset v bmap (logWarnings_of options) scale)
      (clip_tracks clip)
      \<lparr>tracks = [], restRotationInverse = new_Quaternion,
       parentRestWorldRotation = new_Quaternion, console = [], thrown = False\<rparr>"
  have mapped: "bmap (mixamoRigName t) \<noteq> None" if "yieldsTrack v bmap t" for t
    using that by (cases "bmap (mixamoRigName t)") (simp_all add: yieldsTrack_def)
  have timed: "\<forall>t \<in> set (clip_tracks clip). yieldsTrack v bmap t \<longrightarrow> track_times t \<noteq> []"
    using assms(3) mapped by (auto simp: bmap_def)
  have going: "\<not> thrown (snd run)"
    unfolding run_def using timed by (subst forEach_thrown) auto
  have ret: "returned (retargetAnimation fbxAsset v options) =
      Some \<lparr>clip_name = ''vrmAnimation'', clip_duration = clip_duration clip,
            clip_tracks = tracks (snd run)\<rparr>"
    and log: "logged (retargetAnimation fbxAsset v options) = console (snd run)"
    using retargetAnimation_located [OF assms(1,2), of run] going
    by (simp_all add: run_def bmap_def)
  have same: "filter (yieldsTrack v bmap) (clip_tracks clip) =
              filter (\<lambda>t. \<not> bmap (mixamoRigName t) = None) (clip_tracks clip)"
    using assms(3) mapped by (intro filter_cong) (auto simp: bmap_def)
  have "length (tracks (snd run)) = length (filter (yieldsTrack v bmap) (clip_tracks clip))"
    unfolding run_def using timed by (subst forEach_tracks_length) simp_all
  also have "\<dots> = length (clip_tracks clip) -
       length (filter (\<lambda>t. bmap (mixamoRigName t) = None) (clip_tracks clip))"
    using sum_length_filter_compl [of "\<lambda>t. bmap (mixamoRigName t) = None" "clip_tracks clip"]
    by (simp add: same)
  finally have len: "length (tracks (snd run)) = length (clip_tracks clip) -
       length (filter (\<lambda>t. bmap (mixamoRigName t) = None) (clip_tracks clip))" .
  have "console (snd run) = []"
    unfolding run_def
    using assms(3)
    by (subst forEach_console_unchanged) (auto simp: bmap_def yieldsTrack_def)
  with ret log len show ?thesis by (simp add: bmap_def)
qed

text \<open>
  The theorem at a clip of three tracks, one of them of \<open>mixamorigTail\<close>, for which the
  lookup yields nothing.
\<close>

theorem unmapped_tracks_dropped_without_warning_witness:
  "findByName (animations (assetWith [rotationTrack ''mixamorigHips'', rotationTrack ''mixamorigTail'', positionTrack ''mixamorigHips''])) (animationClipName_of defaultOptions) =
     Some \<lparr>clip_name = ''mixamo.com'', clip_duration = Num 2, clip_tracks = [rotationTrack ''mixamorigHips'', rotationTrack ''mixamorigTail'', positionTrack ''mixamorigHips'']\<rparr> \<and>
   hipsPositionScale (assetWith [rotationTrack ''mixamorigHips'', rotationTrack ''mixamorigTail'', positionTrack ''mixamorigHips'']) (avatar (Num 135) (Num 0) ''1'') = Some (Num (3/2)) \<and>
   map (\<lambda>t. boneMap (customBoneMap_of defaultOptions) (mixamoRigName t)) [rotationTrack ''mixamorigHips'', rotationTrack ''mixamorigTail'', positionTrack ''mixamorigHips''] =
     [Some (BoneName ''hips''), None, Some (BoneName ''hips'')] \<and>
   map (yieldsTrack (avatar (Num 135) (Num 0) ''1'') (boneMap (customBoneMap_of defaultOptions))) [rotationTrack ''mixamorigHips'', rotationTrack ''mixamorigTail'', positionTrack ''mixamorigHips''] = [True, False, True] \<and>
   map track_times [rotationTrack ''mixamorigHips'', rotationTrack ''mixamorigTail'', positionTrack ''mixamorigHips''] = [[Num 0, Num 1], [Num 0, Num 1], [Num 0]] \<and>
   (\<exists>out. returned (retargetAnimation (assetWith [rotationTrack ''mixamorigHips'', rotationTrack ''mixamorigTail'', positionTrack ''mixamorigHips'']) (avatar (Num 135) (Num 0) ''1'') defaultOptions) = Some out \<and>
     length (clip_tracks out) = 2 \<and>
     logged (retargetAnimation (assetWith [rotationTrack ''mixamorigHips'', rotationTrack ''mixamorigTail'', positionTrack ''mixamorigHips'']) (avatar (Num 135) (Num 0) ''1'') defaultOptions) = [])"
proof -
  have h1: "findByName (animations (assetWith [rotationTrack ''mixamorigHips'', rotationTrack ''mixamorigTail'', positionTrack ''mixamorigHips''])) (animationClipName_of defaultOptions) =
     Some \<lparr>clip_name = ''mixamo.com'', clip_duration = Num 2, clip_tracks = [rotationTrack ''mixamorigHips'', rotationTrack ''mixamorigTail'', positionTrack ''mixamorigHips'']\<rparr>"
    by (simp add: assetWith_def findByName_def animationClipName_of_def defaultOptions_def)
  have h2: "hipsPositionScale (assetWith [rotationTrack ''mixamorigHips'', rotationTrack ''mixamorigTail'', positionTrack ''mixamorigHips'']) (avatar (Num 135) (Num 0) ''1'') = Some (Num (3/2))"
    by code_simp
  have mapped: "map (\<lambda>t. boneMap (customBoneMap_of defaultOptions) (mixamoRigName t)) [rotationTrack ''mixamorigHips'', rotationTrack ''mixamorigTail'', positionTrack ''mixamorigHips''] =
     [Some (BoneName ''hips''), None, Some (BoneName ''hips'')]"
    by code_simp
  have yields: "map (yieldsTrack (avatar (Num 135) (Num 0) ''1'') (boneMap (customBoneMap_of defaultOptions))) [rotationTrack ''mixamorigHips'', rotationTrack ''mixamorigTail'', positionTrack ''mixamorigHips''] = [True, False, True]"
    by code_simp
  have timed: "map track_times [rotationTrack ''mixamorigHips'', rotationTrack ''mixamorigTail'', positionTrack ''mixamorigHips''] = [[Num 0, Num 1], [Num 0, Num 1], [Num 0]]"
    by (simp add: rotationTrack_def positionTrack_def)
  have h3: "\<forall>t \<in> set (clip_tracks \<lparr>clip_name = ''mixamo.com'', clip_duration = Num 2, clip_tracks = [rotationTrack ''mixamorigHips'', rotationTrack ''mixamorigTail'', positionTrack ''mixamorigHips'']\<rparr>).
      boneMap (customBoneMap_of defaultOptions) (mixamoRigName t) \<noteq> None \<longrightarrow> yieldsTrack (avatar (Num 135) (Num 0) ''1'') (boneMap (customBoneMap_of defaultOptions)) t \<and> track_times t \<noteq> []"
    using mapped yields timed by simp
  have n: "length (clip_tracks \<lparr>clip_name = ''mixamo.com'', clip_duration = Num 2, clip_tracks = [rotationTrack ''mixamorigHips'', rotationTrack ''mixamorigTail'', positionTrack ''mixamorigHips'']\<rparr>) -
       length (filter (\<lambda>t. boneMap (customBoneMap_of defaultOptions) (mixamoRigName t) = None)
                 (clip_tracks \<lparr>clip_name = ''mixamo.com'', clip_duration = Num 2, clip_tracks = [rotationTrack ''mixamorigHips'', rotationTrack ''mixamorigTail'', positionTrack ''mixamorigHips'']\<rparr>)) = 2"
    using mapped by simp
  have "\<exists>out. returned (retargetAnimation (assetWith [rotationTrack ''mixamorigHips'', rotationTrack ''mixamorigTail'', positionTrack ''mixamorigHips'']) (avatar (Num 135) (Num 0) ''1'') defaultOptions) = Some out \<and>
     length (clip_tracks out) = 2 \<and>
     logged (retargetAnimation (assetWith [rotationTrack ''mixamorigHips'', rotationTrack ''mixamorigTail'', positionTrack ''mixamorigHips'']) (avatar (Num 135) (Num 0) ''1'') defaultOptions) = []"
    using unmapped_tracks_dropped_without_warning [OF h1 h2 h3] unfolding n .
  then show ?thesis
    by (rule conjI [OF h1 conjI [OF h2 conjI [OF mapped conjI [OF yields conjI [OF timed]]]]])
qed






text \<open>
  C8. A track whose joint does not exist in the source skeleton is skipped, not retargeted
  with the rest pose of another joint. This fails: the callback never tests
  \<open>mixamoRigNode\<close>, and where the node is missing the two scratch quaternions keep what
  the track before stored. The sample rig has no joint \<open>mixamorigSpine1\<close>, the bone map
  sends the name to \<open>chest\<close> and the target has that bone: after the hips track the
  returned clip holds a chest track retargeted with the rest rotations of the hips, and for
  the same track alone it holds a chest track with the input values.
\<close>

theorem missing_source_joint_retargeted_with_hips_rest:
  "getObjectByName (assetWith [rotationTrack ''mixamorigHips'', rotationTrack ''mixamorigSpine1''])
     (mixamoRigName (rotationTrack ''mixamorigSpine1'')) = None \<and>
   returned (retargetAnimation
      (assetWith [rotationTrack ''mixamorigHips'', rotationTrack ''mixamorigSpine1''])
      (avatar (Num 135) (Num 0) ''1'') defaultOptions) =
     Some \<lparr>clip_name = ''vrmAnimation'', clip_duration = Num 2,
           clip_tracks =
            [\<lparr>track_class = QuaternionKeyframeTrack,
              track_name = ''Normalized_Hips.quaternion'', track_times = [Num 0, Num 1],
              track_values = [Num 0, Num (4/5), Num (3/5), Num 0,
                              Num (2/5), Num (43/55), Num (26/55), Num (4/55)]\<rparr>,
             \<lparr>track_class = QuaternionKeyframeTrack,
              track_name = ''Normalized_Chest.quaternion'', track_times = [Num 0, Num 1],
              track_values = [Num 0, Num (4/5), Num (3/5), Num 0,
                              Num (2/5), Num (43/55), Num (26/55), Num (4/55)]\<rparr>]\<rparr> \<and>
   returned (retargetAnimation (assetWith [rotationTrack ''mixamorigSpine1''])
      (avatar (Num 135) (Num 0) ''1'') defaultOptions) =
     Some \<lparr>clip_name = ''vrmAnimation'', clip_duration = Num 2,
           clip_tracks =
            [\<lparr>track_class = QuaternionKeyframeTrack,
              track_name = ''Normalized_Chest.quaternion'', track_times = [Num 0, Num 1],
              track_values = [Num 0, Num 0, Num 0, Num 1,
                              Num (1/11), Num (2/11), Num (4/11), Num (10/11)]\<rparr>]\<rparr>"
  by code_simp

text \<open>
  C9. A track whose bone is mapped and whose target node exists, but whose class is neither
  \<open>QuaternionKeyframeTrack\<close> nor \<open>VectorKeyframeTrack\<close>, is dropped silently: the
  callback leaves the track as it was, pushes no output track and writes nothing to the
  console.
\<close>

theorem other_class_track_dropped_silently:
  assumes "track_class track = OtherKeyframeTrack"
    and "bmap (mixamoRigName track) = Some bone"
    and "getNormalizedBoneNode v (Some bone) = Some target"
  shows "fst (forEachBody fbxAsset v bmap logW scale track st) = track \<and>
         tracks (snd (forEachBody fbxAsset v bmap logW scale track st)) = tracks st \<and>
         console (snd (forEachBody fbxAsset v bmap logW scale track st)) = console st"
  using assms by (simp add: forEachBody_other)

text \<open>
  The theorem at a \<open>visible\<close> track of the hips.
\<close>

theorem other_class_track_dropped_silently_witness:
  "track_class (visibleTrack ''mixamorigHips'') = OtherKeyframeTrack \<and>
   boneMap Map.empty (mixamoRigName (visibleTrack ''mixamorigHips'')) = Some (BoneName ''hips'') \<and>
   getNormalizedBoneNode (avatar (Num 135) (Num 0) ''1'') (Some (BoneName ''hips'')) =
     Some \<lparr>node_name = ''Normalized_Hips'', node_worldPosition_y = Num 135\<rparr> \<and>
   fst (forEachBody (assetWith [visibleTrack ''mixamorigHips'']) (avatar (Num 135) (Num 0) ''1'')
          (boneMap Map.empty) True (Num (3/2)) (visibleTrack ''mixamorigHips'') initialState) =
     visibleTrack ''mixamorigHips'' \<and>
   tracks (snd (forEachBody (assetWith [visibleTrack ''mixamorigHips'']) (avatar (Num 135) (Num 0) ''1'')
          (boneMap Map.empty) True (Num (3/2)) (visibleTrack ''mixamorigHips'') initialState)) = [] \<and>
   console (snd (forEachBody (assetWith [visibleTrack ''mixamorigHips'']) (avatar (Num 135) (Num 0) ''1'')
          (boneMap Map.empty) True (Num (3/2)) (visibleTrack ''mixamorigHips'') initialState)) = []"
proof -
  have c: "track_class (visibleTrack ''mixamorigHips'') = OtherKeyframeTrack"
    by (simp add: visibleTrack_def)
  have b: "boneMap Map.empty (mixamoRigName (visibleTrack ''mixamorigHips'')) = Some (BoneName ''hips'')"
    by (simp add: boneMap_def mixamoRigName_def visibleTrack_def mixamoVRMRigMap_def)
  have n: "getNormalizedBoneNode (avatar (Num 135) (Num 0) ''1'') (Some (BoneName ''hips'')) =
     Some \<lparr>node_name = ''Normalized_Hips'', node_worldPosition_y = Num 135\<rparr>"
    by (simp add: getNormalizedBoneNode_def avatar_def)
  show ?thesis
    using other_class_track_dropped_silently
        [where track = "visibleTrack ''mixamorigHips''" and bmap = "boneMap Map.empty"
           and v = "avatar (Num 135) (Num 0) ''1''" and st = initialState, OF c b n] c b n
    by (simp add: initialState_def)
qed



end
